theory Spec2Isabelle
  imports Complex_Main
begin

section \<open>The true-color enhancement pipeline of \<^verbatim>\<open>true_color.py\<close>\<close>

text \<open>
  The module enhances a three-band satellite image: a rational tone curve and a gamma
  correction per band (\<^verbatim>\<open>_sAdj\<close>), a global saturation boost (\<^verbatim>\<open>_satEnh\<close>) and
  the sRGB transfer function (\<^verbatim>\<open>_sRGB\<close>), driven by \<^verbatim>\<open>enhanceImage\<close>.

  Conventions of the embedding.
  \<^item> A float is a real number: the arithmetic is exact, and the decimal constants of the
    source denote their decimal values. Rounding is not modelled: a value of the model
    and the float the program computes differ by the rounding error of a few operations,
    so a comparison of two values transfers to the program only when the model
    separates them by more than that.
  \<^item> An operation that numpy evaluates to \<^verbatim>\<open>inf\<close> or \<^verbatim>\<open>nan\<close> on finite operands (a
    division by zero, a negative base under a fractional exponent, the mean of an empty
    array) has the value \<open>None\<close>; the model does not follow the computation past it.
  \<^item> The functions of the source are vectorised. Each element-wise function is given on
    one element, under the name of the source (the leading underscore dropped), and
    lifted to a band by \<open>map\<close>, or by \<open>band_map\<close> when an element can leave the finite
    numbers.
  \<^item> A band is the list of its pixel values (the spatial dimensions flattened). A
    \<^verbatim>\<open>DataArray\<close> has \<^verbatim>\<open>band\<close> as its leading dimension: it is the list of the labels
    of the \<^verbatim>\<open>band\<close> coordinate, the list of the bands in the same positional order and
    the scalar coordinate \<^verbatim>\<open>avgS\<close>, when one is attached.
\<close>

subsection \<open>Parameters\<close>

definition maxR :: real where "maxR = 3.0"
definition midR :: real where "midR = 0.13"
definition sat :: real where "sat = 1.2"
definition gamma :: real where "gamma = 1.8"
definition gOff :: real where "gOff = 0.01"
definition gOffPow :: real where "gOffPow = gOff powr gamma"
definition gOffRange :: real where "gOffRange = (1 + gOff) powr gamma - gOffPow"

subsection \<open>Element-wise stages\<close>

text \<open>
  \<^verbatim>\<open>(b + gOff) ** gamma\<close> is \<^verbatim>\<open>nan\<close> for a negative base; on a base \<open>\<ge> 0\<close> it is the
  real power, with \<^verbatim>\<open>0.0 ** 1.8 = 0.0\<close>.
\<close>

definition adjGamma :: "real \<Rightarrow> real option" where
  "adjGamma b =
     (if b + gOff < 0 then None
      else Some (((b + gOff) powr gamma - gOffPow) / gOffRange))"

definition clip :: "real \<Rightarrow> real" where
  "clip s = min (max s 0) 1"

text \<open>The denominator of the rational tone curve, as \<^verbatim>\<open>_adj\<close> writes it.\<close>

definition adj_denominator :: "real \<Rightarrow> real \<Rightarrow> real \<Rightarrow> real" where
  "adj_denominator ar tx maxC = ar * (2 * tx / maxC - 1) - tx / maxC"

definition adj :: "real \<Rightarrow> real \<Rightarrow> real \<Rightarrow> real \<Rightarrow> real option" where
  "adj a tx ty maxC =
     (if maxC = 0 then None
      else let ar = clip (a / maxC) in
        if adj_denominator ar tx maxC = 0 then None
        else Some (ar * (ar * (tx / maxC + ty - 1) - ty) / adj_denominator ar tx maxC))"

definition sAdj :: "real \<Rightarrow> real option" where
  "sAdj a = Option.bind (adj a midR 1 maxR) adjGamma"

text \<open>
  \<^verbatim>\<open>xr.where\<close> evaluates both branches and selects per element, so the power of a
  negative \<open>c\<close> is computed and discarded: the selected value is always finite.
\<close>

definition sRGB :: "real \<Rightarrow> real" where
  "sRGB c = (if c \<le> 0.0031308 then 12.92 * c else 1.055 * c powr (1 / 2.4) - 0.055)"

subsection \<open>Bands and arrays\<close>

type_synonym band = "real list"

definition band_map :: "(real \<Rightarrow> real option) \<Rightarrow> band \<Rightarrow> band option" where
  "band_map f xs = those (map f xs)"

definition mean :: "real list \<Rightarrow> real option" where
  "mean xs = (if xs = [] then None else Some (sum_list xs / real (length xs)))"

text \<open>\<^verbatim>\<open>np.stack\<close> of the three clipped bands, in the order red, green, blue.\<close>

definition satEnh :: "band \<Rightarrow> band \<Rightarrow> band \<Rightarrow> real \<Rightarrow> band list" where
  "satEnh r g b avg =
     [map (\<lambda>x. clip (avg + x * sat)) r,
      map (\<lambda>x. clip (avg + x * sat)) g,
      map (\<lambda>x. clip (avg + x * sat)) b]"

text \<open>
  The three bands come from one array and have one shape, so \<^verbatim>\<open>r + g + b\<close> adds them
  position by position.
\<close>

definition avgS :: "band \<Rightarrow> band \<Rightarrow> band \<Rightarrow> real option" where
  "avgS r g b =
     mean (map (\<lambda>(x, y, z). (x + y + z) / 3.0 * (1 - sat)) (zip r (zip g b)))"

subsection \<open>Labelled arrays and \<^verbatim>\<open>enhanceImage\<close>\<close>

record dataarray =
  coords_band :: "string list"
  data :: "band list"
  coord_avgS :: "real option"

text \<open>
  What the caller passes as \<^verbatim>\<open>average_saturation\<close>: nothing, a plain Python float, or
  a zero-dimensional \<^verbatim>\<open>DataArray\<close> (what \<^verbatim>\<open>avgS\<close> returns).
\<close>

datatype py_avg = PyNone | PyFloat real | PyDataArray real

text \<open>
  How a run ends without a result: one of the Python exceptions, or \<open>NonFinite\<close>, which
  is no exception: it marks a run in which a value left the finite numbers.
\<close>

datatype stop = KeyError string | ValueError | AttributeError | NonFinite

text \<open>
  \<^verbatim>\<open>xarr.sel(band=l)\<close>: the band at the position of the label \<open>l\<close>; a label that the
  coordinate does not hold raises \<^verbatim>\<open>KeyError\<close>. For a label that occurs more than once
  xarray returns all its bands and the model the first one; the results below that
  speak of the selected values are about arrays with three distinct labels.
\<close>

definition sel :: "dataarray \<Rightarrow> string \<Rightarrow> stop + band" where
  "sel xarr l =
     (case map_of (zip (coords_band xarr) (data xarr)) l of
        None \<Rightarrow> Inl (KeyError l)
      | Some a \<Rightarrow> Inr a)"

text \<open>\<^verbatim>\<open>_sAdj(xarr.sel(band=l))\<close>.\<close>

definition sAdj_sel :: "dataarray \<Rightarrow> string \<Rightarrow> stop + band" where
  "sAdj_sel xarr l =
     (case sel xarr l of
        Inl e \<Rightarrow> Inl e
      | Inr a \<Rightarrow> (case band_map sAdj a of None \<Rightarrow> Inl NonFinite | Some r \<Rightarrow> Inr r))"

text \<open>
  Lines 76 to 77: the scalar is computed only when the argument is \<^verbatim>\<open>None\<close>; \<^verbatim>\<open>avgS\<close>
  returns a zero-dimensional \<^verbatim>\<open>DataArray\<close>.
\<close>

definition average_saturation_of :: "py_avg \<Rightarrow> band \<Rightarrow> band \<Rightarrow> band \<Rightarrow> stop + py_avg" where
  "average_saturation_of average_saturation r g b =
     (case average_saturation of
        PyNone \<Rightarrow> (case avgS r g b of None \<Rightarrow> Inl NonFinite | Some m \<Rightarrow> Inr (PyDataArray m))
      | _ \<Rightarrow> Inr average_saturation)"

text \<open>
  The number a float or a zero-dimensional array contributes to \<^verbatim>\<open>avgS + r * sat\<close>.
  \<open>average_saturation_of\<close> never returns \<open>PyNone\<close>, so the last equation is never used.
\<close>

fun number_of :: "py_avg \<Rightarrow> real" where
  "number_of (PyFloat v) = v"
| "number_of (PyDataArray v) = v"
| "number_of PyNone = 0"

text \<open>\<^verbatim>\<open>_sRGB\<close> on a labelled array: every pixel is encoded, the coordinates are kept.\<close>

definition sRGB_arr :: "dataarray \<Rightarrow> dataarray" where
  "sRGB_arr c = c\<lparr>data := map (map sRGB) (data c)\<rparr>"

text \<open>
  \<^verbatim>\<open>enhanceImage\<close>, statement by statement.
  \<^item> Lines 73 to 75 select and tone-adjust red, green and blue, in this order.
  \<^item> Line 78 stacks the three enhanced bands: \<open>rgbLin\<close> has three bands.
  \<^item> Line 79 wraps \<open>rgbLin\<close> with the coordinates of the input; the constructor raises
    \<^verbatim>\<open>ValueError\<close> when the \<^verbatim>\<open>band\<close> coordinate does not have three labels.
  \<^item> Line 80 reads \<^verbatim>\<open>average_saturation.values\<close>, an attribute a float does not have.
  \<^item> Line 81 encodes the labelled array.
\<close>

definition enhanceImage :: "dataarray \<Rightarrow> py_avg \<Rightarrow> stop + dataarray" where
  "enhanceImage xarr average_saturation =
     (case sAdj_sel xarr ''red'' of Inl e \<Rightarrow> Inl e | Inr r \<Rightarrow>
     (case sAdj_sel xarr ''green'' of Inl e \<Rightarrow> Inl e | Inr g \<Rightarrow>
     (case sAdj_sel xarr ''blue'' of Inl e \<Rightarrow> Inl e | Inr b \<Rightarrow>
     (case average_saturation_of average_saturation r g b of Inl e \<Rightarrow> Inl e | Inr avg \<Rightarrow>
        (let rgbLin = satEnh r g b (number_of avg) in
         if length (coords_band xarr) \<noteq> length rgbLin then Inl ValueError
         else
           (let rgbLin_xr = \<lparr>coords_band = coords_band xarr, data = rgbLin,
                               coord_avgS = coord_avgS xarr\<rparr> in
            (case avg of
               PyDataArray v \<Rightarrow> Inr (sRGB_arr (rgbLin_xr\<lparr>coord_avgS := Some v\<rparr>))
             | _ \<Rightarrow> Inl AttributeError)))))))"

subsection \<open>Well-formed inputs, and the stages in the words of the specification\<close>

text \<open>
  A three-band image with \<open>n\<close> pixels per band: the \<^verbatim>\<open>band\<close> coordinate holds the three
  labels red, green and blue, in any order, and each label has its band of \<open>n\<close> pixels.
\<close>

definition three_band :: "dataarray \<Rightarrow> nat \<Rightarrow> bool" where
  "three_band xarr n \<longleftrightarrow>
     length (coords_band xarr) = 3 \<and>
     set (coords_band xarr) = {''red'', ''green'', ''blue''} \<and>
     length (data xarr) = 3 \<and>
     list_all (\<lambda>a. length a = n) (data xarr)"

text \<open>
  The specification's \<open>band_out = clip(avgS + band_in * sat, 0, 1)\<close> and its
  \<open>avgS = mean((r + g + b)/3 * (1 - sat))\<close> over all pixels, written over pixel
  positions. They are compared with \<open>satEnh\<close> and \<open>avgS\<close> below.
\<close>

definition spec_band_out :: "real \<Rightarrow> real \<Rightarrow> real" where
  "spec_band_out avg band_in =
     (let v = avg + band_in * sat in if v < 0 then 0 else if 1 < v then 1 else v)"

definition spec_avgS :: "band \<Rightarrow> band \<Rightarrow> band \<Rightarrow> real" where
  "spec_avgS r g b =
     (\<Sum>i<length r. (r ! i + g ! i + b ! i) / 3 * (1 - sat)) / real (length r)"

text \<open>Two inputs for the examples: a black pixel, and a blue pixel with the bands in
  the order blue, green, red.\<close>

abbreviation black_rgb :: dataarray where
  "black_rgb \<equiv>
     \<lparr>coords_band = [''red'', ''green'', ''blue''], data = [[0], [0], [0]], coord_avgS = None\<rparr>"

abbreviation blue_bgr :: dataarray where
  "blue_bgr \<equiv>
     \<lparr>coords_band = [''blue'', ''green'', ''red''], data = [[1], [0], [0]], coord_avgS = None\<rparr>"

section \<open>The tone curve\<close>

lemma maxR_nonzero: "maxR \<noteq> 0"
  by (simp add: maxR_def)

lemma clip_range: "0 \<le> clip s \<and> clip s \<le> 1"
  by (simp add: clip_def)

lemma adj_denominator_negative:
  assumes "0 \<le> ar"
  shows "adj_denominator ar midR maxR < 0"
proof -
  have "adj_denominator ar midR maxR = - (ar * (274 / 300) + 13 / 300)"
    by (simp add: adj_denominator_def midR_def maxR_def algebra_simps)
  moreover have "0 < ar * (274 / 300) + 13 / 300"
    using assms by (simp add: add_nonneg_pos)
  ultimately show ?thesis by simp
qed

text \<open>
  C4. With \<open>tx = midR = 0.13\<close> and \<open>maxC = maxR = 3.0\<close> the denominator of the rational tone
  curve is nonzero for every \<open>ar\<close> in \<open>[0, 1]\<close>, and so \<^verbatim>\<open>_adj\<close>, which clips \<open>ar\<close> into
  \<open>[0, 1]\<close>, never divides by zero under these parameters: it has a finite value on every
  input.
\<close>

theorem adj_denominator_nonzero:
  "(0 \<le> ar \<and> ar \<le> 1 \<longrightarrow> adj_denominator ar midR maxR \<noteq> 0) \<and>
   (\<exists>y. adj a midR 1 maxR = Some y)"
proof
  show "0 \<le> ar \<and> ar \<le> 1 \<longrightarrow> adj_denominator ar midR maxR \<noteq> 0"
    using adj_denominator_negative [of ar] by auto
next
  have "adj_denominator (clip (a / maxR)) midR maxR \<noteq> 0"
    using adj_denominator_negative [of "clip (a / maxR)"] clip_range [of "a / maxR"] by auto
  then show "\<exists>y. adj a midR 1 maxR = Some y"
    by (simp add: adj_def Let_def maxR_nonzero)
qed

theorem adj_denominator_nonzero_witness:
  "(0::real) \<le> 1 / 2 \<and> (1 / 2::real) \<le> 1 \<and> adj_denominator (1 / 2) midR maxR \<noteq> 0 \<and>
   (\<exists>y. adj (1 / 2) midR 1 maxR = Some y)"
  using adj_denominator_nonzero [of "1 / 2" "1 / 2"] by simp

lemma gOffRange_pos: "0 < gOffRange"
proof -
  have "gOff powr gamma < (1 + gOff) powr gamma"
    by (rule powr_less_mono2) (simp_all add: gOff_def gamma_def)
  then show ?thesis by (simp add: gOffRange_def gOffPow_def)
qed

lemma adj_fixed:
  "adj a midR 1 maxR =
     Some (clip (a / maxR) * (clip (a / maxR) * (midR / maxR) - 1) /
             adj_denominator (clip (a / maxR)) midR maxR)"
proof -
  have "adj_denominator (clip (a / maxR)) midR maxR \<noteq> 0"
    using adj_denominator_negative [of "clip (a / maxR)"] clip_range [of "a / maxR"] by auto
  then show ?thesis
    by (simp add: adj_def Let_def maxR_nonzero)
qed

lemma adj_nonneg:
  assumes "adj a midR 1 maxR = Some y"
  shows "0 \<le> y"
proof -
  define ar where "ar = clip (a / maxR)"
  have ar: "0 \<le> ar" "ar \<le> 1"
    using clip_range [of "a / maxR"] by (simp_all add: ar_def)
  have "ar * (midR / maxR) \<le> 1 * (midR / maxR)"
    using ar by (intro mult_right_mono) (simp_all add: midR_def maxR_def)
  then have "ar * (midR / maxR) - 1 \<le> 0"
    by (simp add: midR_def maxR_def)
  with ar have "ar * (ar * (midR / maxR) - 1) \<le> 0"
    by (simp add: mult_nonneg_nonpos)
  moreover have "adj_denominator ar midR maxR < 0"
    using ar by (simp add: adj_denominator_negative)
  ultimately have "0 \<le> ar * (ar * (midR / maxR) - 1) / adj_denominator ar midR maxR"
    by (simp add: divide_nonpos_neg)
  then show ?thesis
    using assms by (simp add: adj_fixed ar_def)
qed

lemma sAdj_total: "\<exists>y. sAdj a = Some y"
proof -
  obtain u where u: "adj a midR 1 maxR = Some u" by (simp add: adj_fixed)
  then have "0 \<le> u" by (rule adj_nonneg)
  then have "\<not> u + gOff < 0" by (simp add: gOff_def)
  then show ?thesis by (simp add: sAdj_def u adjGamma_def)
qed

lemma sAdj_zero: "sAdj 0 = Some 0"
  by (simp add: sAdj_def adj_fixed clip_def adjGamma_def gOff_def gOffPow_def)

section \<open>The sRGB transfer function\<close>

lemma root12_of_power:
  fixes y :: real
  assumes "0 < y"
  shows "(y ^ 12) powr (1 / 12) = y"
proof -
  have "(y ^ 12) powr (1 / 12) = (y powr 12) powr (1 / 12)"
    using assms by simp
  also have "\<dots> = y powr (12 * (1 / 12))"
    by (rule powr_powr)
  also have "\<dots> = y"
    using assms by simp
  finally show ?thesis .
qed

lemma root12_of_power5:
  fixes x :: real
  assumes "0 < x"
  shows "(x ^ 5) powr (1 / 12) = x powr (5 / 12)"
proof -
  have "(x ^ 5) powr (1 / 12) = (x powr 5) powr (1 / 12)"
    using assms by simp
  also have "\<dots> = x powr (5 * (1 / 12))"
    by (rule powr_powr)
  finally show ?thesis by simp
qed

lemma root12_le:
  fixes x y :: real
  assumes "0 < x" "0 \<le> y" "y ^ 12 \<le> x ^ 5"
  shows "y \<le> x powr (5 / 12)"
proof (cases "y = 0")
  case True
  then show ?thesis by simp
next
  case False
  with assms(2) have y: "0 < y" by simp
  have "(y ^ 12) powr (1 / 12) \<le> (x ^ 5) powr (1 / 12)"
    using assms(3) y by (intro powr_mono2) simp_all
  then show ?thesis
    by (simp only: root12_of_power [OF y] root12_of_power5 [OF assms(1)])
qed

lemma root12_less:
  fixes x y :: real
  assumes "0 < x" "0 < y" "x ^ 5 < y ^ 12"
  shows "x powr (5 / 12) < y"
proof -
  have "(x ^ 5) powr (1 / 12) < (y ^ 12) powr (1 / 12)"
    using assms by (intro powr_less_mono2) simp_all
  then show ?thesis
    by (simp only: root12_of_power [OF assms(2)] root12_of_power5 [OF assms(1)])
qed

lemma sRGB_linear: "c \<le> 0.0031308 \<Longrightarrow> sRGB c = 12.92 * c"
  by (simp add: sRGB_def)

lemma sRGB_power: "0.0031308 < c \<Longrightarrow> sRGB c = 1.055 * c powr (5 / 12) - 0.055"
  by (simp add: sRGB_def)



lemma sRGB_range:
  assumes "0 \<le> c" "c \<le> 1"
  shows "0 \<le> sRGB c \<and> sRGB c \<le> 1"
proof (cases "c \<le> 0.0031308")
  case True
  then show ?thesis using assms by (simp add: sRGB_linear)
next
  case False
  then have c: "0.0031308 < c" by simp
  have "(55 / 1055 :: real) \<le> 0.0031308 powr (5 / 12)"
    by (rule root12_le) (simp_all add: field_simps)
  also have "\<dots> \<le> c powr (5 / 12)"
    using c by (intro powr_mono2) simp_all
  finally have lo: "55 / 1055 \<le> c powr (5 / 12)" .
  have "c powr (5 / 12) \<le> 1 powr (5 / 12)"
    using assms by (intro powr_mono2) simp_all
  then have hi: "c powr (5 / 12) \<le> 1" by simp
  from lo hi c show ?thesis by (simp add: sRGB_power)
qed

section \<open>Bands through the tone curve\<close>

lemma those_map_Some:
  assumes "\<And>x. x \<in> set xs \<Longrightarrow> f x = Some (h x)"
  shows "those (map f xs) = Some (map h xs)"
  using assms by (induction xs) simp_all

lemma band_map_replicate:
  assumes "f x = Some y"
  shows "band_map f (replicate n x) = Some (replicate n y)"
  using assms by (induction n) (simp_all add: band_map_def)

lemma floor_constant_zero: "(gOff powr gamma - gOffPow) / gOffRange = 0"
  by (simp add: gOffPow_def)

text \<open>
  C1, as the code has it. For an input band whose elements are all \<open>0\<close> the tone-curve
  stage \<^verbatim>\<open>_sAdj\<close> returns the constant \<open>(gOff ** gamma - gOffPow) / gOffRange\<close> at every
  element, and this constant is exactly \<open>0\<close>: \<open>gOffPow\<close> is \<open>gOff ** gamma\<close>, so the
  subtraction takes the whole offset back and black stays black.
\<close>

theorem zero_band_tone:
  "band_map sAdj (replicate n 0) = Some (replicate n ((gOff powr gamma - gOffPow) / gOffRange)) \<and>
   (gOff powr gamma - gOffPow) / gOffRange = 0"
  using band_map_replicate [of sAdj 0 0 n] by (simp add: sAdj_zero floor_constant_zero)

text \<open>
  C1 as stated asks the constant to be strictly greater than zero. On the band of two
  zero pixels the output is the constant, and the constant is not positive.
\<close>

theorem floor_lift_counterexample:
  "band_map sAdj [0, 0] =
     Some [(gOff powr gamma - gOffPow) / gOffRange, (gOff powr gamma - gOffPow) / gOffRange] \<and>
   \<not> 0 < (gOff powr gamma - gOffPow) / gOffRange"
  by (simp add: band_map_def sAdj_zero floor_constant_zero)
















section \<open>Selecting bands and running \<^verbatim>\<open>enhanceImage\<close>\<close>

lemma band_map_sAdj: "\<exists>r. band_map sAdj a = Some r \<and> length r = length a"
proof -
  have "those (map sAdj a) = Some (map (\<lambda>x. the (sAdj x)) a)"
  proof (rule those_map_Some)
    fix x
    obtain y where "sAdj x = Some y" using sAdj_total [of x] by blast
    then show "sAdj x = Some (the (sAdj x))" by simp
  qed
  then show ?thesis by (simp add: band_map_def)
qed

lemma sel_missing:
  assumes "l \<notin> set (coords_band xarr)"
  shows "sel xarr l = Inl (KeyError l)"
proof -
  have "map_of (zip (coords_band xarr) (data xarr)) l = None"
    using assms by (auto simp: map_of_eq_None_iff dest: set_zip_leftD)
  then show ?thesis by (simp add: sel_def)
qed

lemma sel_present:
  assumes "length (data xarr) = length (coords_band xarr)" "l \<in> set (coords_band xarr)"
  shows "\<exists>a. sel xarr l = Inr a \<and> a \<in> set (data xarr)"
proof -
  from assms obtain a where a: "map_of (zip (coords_band xarr) (data xarr)) l = Some a"
    using map_of_zip_is_Some [of "coords_band xarr" "data xarr" l] by auto
  then have "(l, a) \<in> set (zip (coords_band xarr) (data xarr))" by (rule map_of_SomeD)
  then have "a \<in> set (data xarr)" by (rule set_zip_rightD)
  with a show ?thesis by (simp add: sel_def)
qed

lemma sAdj_sel_missing:
  assumes "l \<notin> set (coords_band xarr)"
  shows "sAdj_sel xarr l = Inl (KeyError l)"
  using sel_missing [OF assms] by (simp add: sAdj_sel_def)

lemma sAdj_sel_present:
  assumes "length (data xarr) = length (coords_band xarr)" "l \<in> set (coords_band xarr)"
  shows "\<exists>a r. sel xarr l = Inr a \<and> a \<in> set (data xarr) \<and> band_map sAdj a = Some r \<and>
           length r = length a \<and> sAdj_sel xarr l = Inr r"
proof -
  from sel_present [OF assms] obtain a where a: "sel xarr l = Inr a" "a \<in> set (data xarr)"
    by blast
  obtain r where r: "band_map sAdj a = Some r" "length r = length a"
    using band_map_sAdj [of a] by blast
  from a r have "sAdj_sel xarr l = Inr r" by (simp add: sAdj_sel_def)
  with a r show ?thesis by blast
qed

lemma enhanceImage_supplied:
  assumes "sAdj_sel xarr ''red'' = Inr r" "sAdj_sel xarr ''green'' = Inr g"
    "sAdj_sel xarr ''blue'' = Inr b" "length (coords_band xarr) = 3"
  shows "enhanceImage xarr (PyDataArray v) =
           Inr \<lparr>coords_band = coords_band xarr, data = map (map sRGB) (satEnh r g b v),
                coord_avgS = Some v\<rparr>"
  using assms
  by (simp add: enhanceImage_def average_saturation_of_def sRGB_arr_def Let_def)
     (simp add: satEnh_def)

lemma enhanceImage_computed:
  assumes "sAdj_sel xarr ''red'' = Inr r" "sAdj_sel xarr ''green'' = Inr g"
    "sAdj_sel xarr ''blue'' = Inr b" "length (coords_band xarr) = 3" "avgS r g b = Some m"
  shows "enhanceImage xarr PyNone =
           Inr \<lparr>coords_band = coords_band xarr, data = map (map sRGB) (satEnh r g b m),
                coord_avgS = Some m\<rparr>"
  using assms
  by (simp add: enhanceImage_def average_saturation_of_def sRGB_arr_def Let_def)
     (simp add: satEnh_def)

lemma enhanceImage_float:
  assumes "sAdj_sel xarr ''red'' = Inr r" "sAdj_sel xarr ''green'' = Inr g"
    "sAdj_sel xarr ''blue'' = Inr b" "length (coords_band xarr) = 3"
  shows "enhanceImage xarr (PyFloat v) = Inl AttributeError"
  using assms
  by (simp add: enhanceImage_def average_saturation_of_def Let_def) (simp add: satEnh_def)

lemma enhanceImage_InrD:
  assumes "enhanceImage xarr avg = Inr out"
  shows "\<exists>r g b v. sAdj_sel xarr ''red'' = Inr r \<and> sAdj_sel xarr ''green'' = Inr g \<and>
           sAdj_sel xarr ''blue'' = Inr b \<and>
           average_saturation_of avg r g b = Inr (PyDataArray v) \<and>
           length (coords_band xarr) = 3 \<and>
           out = sRGB_arr \<lparr>coords_band = coords_band xarr, data = satEnh r g b v,
                           coord_avgS = Some v\<rparr>"
  using assms
  by (auto simp: enhanceImage_def Let_def satEnh_def split: sum.splits py_avg.splits if_splits)

lemma three_band_sel:
  assumes "three_band xarr n" "l \<in> {''red'', ''green'', ''blue''}"
  shows "\<exists>a r. sel xarr l = Inr a \<and> length a = n \<and> band_map sAdj a = Some r \<and>
           length r = n \<and> sAdj_sel xarr l = Inr r"
proof -
  from assms have len: "length (data xarr) = length (coords_band xarr)"
    and mem: "l \<in> set (coords_band xarr)"
    and all: "list_all (\<lambda>a. length a = n) (data xarr)"
    by (simp_all add: three_band_def)
  from sAdj_sel_present [OF len mem] obtain a r where
    ar: "sel xarr l = Inr a" "a \<in> set (data xarr)" "band_map sAdj a = Some r"
      "length r = length a" "sAdj_sel xarr l = Inr r" by blast
  from all ar(2) have "length a = n" by (simp add: list_all_iff)
  with ar show ?thesis by auto
qed

lemma avgS_Some:
  assumes "length g = length r" "length b = length r" "r \<noteq> []"
  shows "avgS r g b = Some (spec_avgS r g b)"
proof -
  let ?f = "\<lambda>(x, y, z). (x + y + z) / 3.0 * (1 - sat)"
  let ?xs = "map ?f (zip r (zip g b))"
  have len: "length ?xs = length r" using assms by simp
  have nth: "?xs ! i = (r ! i + g ! i + b ! i) / 3 * (1 - sat)" if "i < length r" for i
    using that assms by simp
  have "sum_list ?xs = (\<Sum>i = 0..<length ?xs. ?xs ! i)"
    by (rule sum_list_sum_nth)
  also have "\<dots> = (\<Sum>i<length r. ?xs ! i)"
    by (simp only: len lessThan_atLeast0)
  also have "\<dots> = (\<Sum>i<length r. (r ! i + g ! i + b ! i) / 3 * (1 - sat))"
    by (rule sum.cong [OF refl], rule nth, simp)
  finally have "sum_list ?xs = (\<Sum>i<length r. (r ! i + g ! i + b ! i) / 3 * (1 - sat))" .
  moreover have "?xs \<noteq> []" using assms len by (metis length_0_conv)
  ultimately show ?thesis
    using len by (simp add: avgS_def mean_def spec_avgS_def del: length_map length_zip)
qed

lemma clip_spec: "clip (avg + x * sat) = spec_band_out avg x"
  by (simp add: clip_def spec_band_out_def Let_def min_def max_def)

lemma sRGB_clip_range: "0 \<le> sRGB (clip s) \<and> sRGB (clip s) \<le> 1"
  using sRGB_range [of "clip s"] clip_range [of s] by simp

lemma satEnh_range:
  "list_all (list_all (\<lambda>y. 0 \<le> y \<and> y \<le> 1)) (map (map sRGB) (satEnh r g b v))"
  by (simp add: satEnh_def list_all_iff sRGB_clip_range)

lemma sRGB_pos:
  assumes "0 < c" "c \<le> 1"
  shows "0 < sRGB c"
proof (cases "c \<le> 0.0031308")
  case True
  then show ?thesis using assms by (simp add: sRGB_linear)
next
  case False
  then have c: "0.0031308 < c" by simp
  have "(55 / 1055 :: real) \<le> 0.0031308 powr (5 / 12)"
    by (rule root12_le) (simp_all add: field_simps)
  also have "\<dots> < c powr (5 / 12)"
    using c by (intro powr_less_mono2) simp_all
  finally show ?thesis using c by (simp add: sRGB_power)
qed

lemma sAdj_pos:
  assumes "0 < a"
  shows "\<exists>v. sAdj a = Some v \<and> 0 < v"
proof -
  define ar where "ar = clip (a / maxR)"
  have ar: "0 < ar" "ar \<le> 1"
    using assms by (simp_all add: ar_def clip_def maxR_def)
  define u where "u = ar * (ar * (midR / maxR) - 1) / adj_denominator ar midR maxR"
  have "ar * (midR / maxR) \<le> 1 * (midR / maxR)"
    using ar by (intro mult_right_mono) (simp_all add: midR_def maxR_def)
  then have "ar * (midR / maxR) - 1 < 0"
    by (simp add: midR_def maxR_def)
  with ar have "ar * (ar * (midR / maxR) - 1) < 0"
    by (simp add: mult_pos_neg)
  moreover have "adj_denominator ar midR maxR < 0"
    using ar by (simp add: adj_denominator_negative)
  ultimately have u: "0 < u"
    by (simp add: u_def divide_neg_neg)
  have adj: "adj a midR 1 maxR = Some u"
    by (simp add: adj_fixed u_def ar_def)
  have "gOff powr gamma < (u + gOff) powr gamma"
    using u by (intro powr_less_mono2) (simp_all add: gOff_def gamma_def)
  then have "0 < ((u + gOff) powr gamma - gOffPow) / gOffRange"
    using gOffRange_pos by (simp add: gOffPow_def)
  moreover have "\<not> u + gOff < 0"
    using u by (simp add: gOff_def)
  ultimately show ?thesis
    by (simp add: sAdj_def adj adjGamma_def)
qed

lemma black_rgb_tone:
  "sAdj_sel black_rgb ''red'' = Inr [0] \<and> sAdj_sel black_rgb ''green'' = Inr [0] \<and>
   sAdj_sel black_rgb ''blue'' = Inr [0]"
  by (simp add: sAdj_sel_def sel_def band_map_def sAdj_zero)

lemma black_rgb_three_band: "three_band black_rgb 1"
  by (auto simp: three_band_def)

lemma black_rgb_avgS: "avgS [0] [0] [0] = Some 0"
  by (simp add: avgS_def mean_def)

lemma sRGB_zero: "sRGB 0 = 0"
  by (simp add: sRGB_def)

lemma clip_zero: "clip 0 = 0"
  by (simp add: clip_def)

lemma black_rgb_enhanced:
  "enhanceImage black_rgb PyNone =
     Inr \<lparr>coords_band = [''red'', ''green'', ''blue''], data = [[0], [0], [0]],
          coord_avgS = Some 0\<rparr>"
  using enhanceImage_computed [of black_rgb "[0]" "[0]" "[0]" 0] black_rgb_tone black_rgb_avgS
  by (simp add: satEnh_def clip_zero sRGB_zero)

text \<open>
  C2. For every three-band image with at least one pixel whose band values all lie in
  \<open>[0, 1]\<close>, called with no \<^verbatim>\<open>average_saturation\<close> or with a zero-dimensional array,
  \<^verbatim>\<open>enhanceImage\<close> returns an array, and every pixel value of it lies in \<open>[0, 1]\<close>.
\<close>

theorem enhanceImage_range:
  assumes "three_band xarr n" "0 < n"
    and "list_all (list_all (\<lambda>x. 0 \<le> x \<and> x \<le> 1)) (data xarr)"
    and "avg = PyNone \<or> avg = PyDataArray v"
  shows "\<exists>out. enhanceImage xarr avg = Inr out \<and>
           list_all (list_all (\<lambda>y. 0 \<le> y \<and> y \<le> 1)) (data out)"
proof -
  obtain r where r: "sAdj_sel xarr ''red'' = Inr r" "length r = n"
    using three_band_sel [OF assms(1), of "''red''"] by auto
  obtain g where g: "sAdj_sel xarr ''green'' = Inr g" "length g = n"
    using three_band_sel [OF assms(1), of "''green''"] by auto
  obtain b where b: "sAdj_sel xarr ''blue'' = Inr b" "length b = n"
    using three_band_sel [OF assms(1), of "''blue''"] by auto
  have three: "length (coords_band xarr) = 3"
    using assms(1) by (simp add: three_band_def)
  from assms(4) show ?thesis
  proof
    assume "avg = PyNone"
    have "r \<noteq> []" using r(2) assms(2) by auto
    then have "avgS r g b = Some (spec_avgS r g b)"
      using r g b by (intro avgS_Some) simp_all
    from enhanceImage_computed [OF r(1) g(1) b(1) three this] \<open>avg = PyNone\<close>
    show ?thesis by (simp add: satEnh_range)
  next
    assume "avg = PyDataArray v"
    with enhanceImage_supplied [OF r(1) g(1) b(1) three, of v]
    show ?thesis by (simp add: satEnh_range)
  qed
qed

theorem enhanceImage_range_witness:
  "three_band black_rgb 1 \<and> (0::nat) < 1 \<and>
   list_all (list_all (\<lambda>x. 0 \<le> x \<and> x \<le> 1)) (data black_rgb) \<and>
   (\<exists>out. enhanceImage black_rgb PyNone = Inr out \<and>
      list_all (list_all (\<lambda>y. 0 \<le> y \<and> y \<le> 1)) (data out))"
  using enhanceImage_range [of black_rgb 1 PyNone] black_rgb_three_band by simp

text \<open>
  C8. For every three-band image with at least one pixel, the call with no
  \<^verbatim>\<open>average_saturation\<close> and the call that supplies \<open>avgS(r, g, b)\<close>, computed over the
  same tone-curve-adjusted bands, both return, and return the same array.
\<close>

theorem average_saturation_reproducible:
  assumes "three_band xarr n" "0 < n"
  shows "\<exists>r g b m out. sAdj_sel xarr ''red'' = Inr r \<and> sAdj_sel xarr ''green'' = Inr g \<and>
           sAdj_sel xarr ''blue'' = Inr b \<and> avgS r g b = Some m \<and>
           enhanceImage xarr PyNone = Inr out \<and>
           enhanceImage xarr (PyDataArray m) = Inr out"
proof -
  obtain r where r: "sAdj_sel xarr ''red'' = Inr r" "length r = n"
    using three_band_sel [OF assms(1), of "''red''"] by auto
  obtain g where g: "sAdj_sel xarr ''green'' = Inr g" "length g = n"
    using three_band_sel [OF assms(1), of "''green''"] by auto
  obtain b where b: "sAdj_sel xarr ''blue'' = Inr b" "length b = n"
    using three_band_sel [OF assms(1), of "''blue''"] by auto
  have three: "length (coords_band xarr) = 3"
    using assms(1) by (simp add: three_band_def)
  have "r \<noteq> []" using r(2) assms(2) by auto
  then have m: "avgS r g b = Some (spec_avgS r g b)"
    using r g b by (intro avgS_Some) simp_all
  show ?thesis
    using r(1) g(1) b(1) m enhanceImage_computed [OF r(1) g(1) b(1) three m]
      enhanceImage_supplied [OF r(1) g(1) b(1) three, of "spec_avgS r g b"]
    by blast
qed

theorem average_saturation_reproducible_witness:
  "three_band black_rgb 1 \<and> (0::nat) < 1 \<and>
   (\<exists>r g b m out. sAdj_sel black_rgb ''red'' = Inr r \<and> sAdj_sel black_rgb ''green'' = Inr g \<and>
           sAdj_sel black_rgb ''blue'' = Inr b \<and> avgS r g b = Some m \<and>
           enhanceImage black_rgb PyNone = Inr out \<and>
           enhanceImage black_rgb (PyDataArray m) = Inr out)"
  using average_saturation_reproducible [of black_rgb 1] black_rgb_three_band by simp

text \<open>
  C5. The saturation stage stacks, for red, green and blue alike, the bands of
  \<open>clip(avgS + band_in * sat, 0, 1)\<close> under the one scalar it is given; and the scalar that
  \<^verbatim>\<open>enhanceImage\<close> computes when the caller supplies none is
  \<open>mean((r + g + b)/3 * (1 - sat))\<close> over all pixels of the three bands.
\<close>

theorem satEnh_postcondition:
  "satEnh r g b avg =
     [map (spec_band_out avg) r, map (spec_band_out avg) g, map (spec_band_out avg) b] \<and>
   (length g = length r \<and> length b = length r \<and> r \<noteq> [] \<longrightarrow>
      avgS r g b = Some (spec_avgS r g b) \<and>
      average_saturation_of PyNone r g b = Inr (PyDataArray (spec_avgS r g b)))"
proof (intro conjI impI)
  have "map (\<lambda>x. clip (avg + x * sat)) xs = map (spec_band_out avg) xs" for xs
    by (simp add: clip_spec)
  then show "satEnh r g b avg =
      [map (spec_band_out avg) r, map (spec_band_out avg) g, map (spec_band_out avg) b]"
    by (simp add: satEnh_def)
next
  assume "length g = length r \<and> length b = length r \<and> r \<noteq> []"
  then show m: "avgS r g b = Some (spec_avgS r g b)"
    by (intro avgS_Some) simp_all
  then show "average_saturation_of PyNone r g b = Inr (PyDataArray (spec_avgS r g b))"
    by (simp add: average_saturation_of_def)
qed

theorem satEnh_postcondition_witness:
  "satEnh [1 / 2] [0] [1] 0 =
     [map (spec_band_out 0) [1 / 2], map (spec_band_out 0) [0], map (spec_band_out 0) [1]] \<and>
   length [0::real] = length [1 / 2 :: real] \<and> length [1::real] = length [1 / 2 :: real] \<and>
   [1 / 2 :: real] \<noteq> [] \<and>
   avgS [1 / 2] [0] [1] = Some (spec_avgS [1 / 2] [0] [1]) \<and>
   average_saturation_of PyNone [1 / 2] [0] [1] = Inr (PyDataArray (spec_avgS [1 / 2] [0] [1])) \<and>
   spec_avgS [1 / 2] [0] [1] = - (1 / 10) \<and>
   map (spec_band_out 0) [1 / 2] = [3 / 5] \<and> map (spec_band_out 0) [1] = [1]"
  using satEnh_postcondition [of "[1 / 2]" "[0]" "[1]" 0]
  by (simp add: spec_avgS_def spec_band_out_def sat_def)

lemma black_rgb_half:
  "enhanceImage black_rgb (PyDataArray (1 / 2)) =
     Inr \<lparr>coords_band = [''red'', ''green'', ''blue''],
          data = [[sRGB (1 / 2)], [sRGB (1 / 2)], [sRGB (1 / 2)]], coord_avgS = Some (1 / 2)\<rparr>"
  using enhanceImage_supplied [of black_rgb "[0]" "[0]" "[0]" "1 / 2"] black_rgb_tone
  by (simp add: satEnh_def clip_def)

text \<open>
  C6. The encoder is \<open>12.92 * c\<close> when \<open>c \<le> 0.0031308\<close> and
  \<open>1.055 * c ** (1/2.4) - 0.055\<close> otherwise. It is the last stage of \<^verbatim>\<open>enhanceImage\<close>:
  whenever a result is returned, with \<open>r\<close>, \<open>g\<close>, \<open>b\<close> the tone-adjusted bands selected from
  the input and \<open>v\<close> the scalar in use, the result is the encoder applied to the stack
  \<^verbatim>\<open>_satEnh(r, g, b, v)\<close> wrapped with the input's labels and the \<^verbatim>\<open>avgS\<close> field \<open>v\<close>, and
  every pixel of each of its three bands is the two-branch formula at the pixel of the
  stack in the same place.
\<close>

theorem sRGB_formula_last_stage:
  "(c \<le> 0.0031308 \<longrightarrow> sRGB c = 12.92 * c) \<and>
   (\<not> c \<le> 0.0031308 \<longrightarrow> sRGB c = 1.055 * c powr (1 / 2.4) - 0.055) \<and>
   (enhanceImage xarr avg = Inr out \<longrightarrow>
      (\<exists>r g b v.
         sAdj_sel xarr ''red'' = Inr r \<and> sAdj_sel xarr ''green'' = Inr g \<and>
         sAdj_sel xarr ''blue'' = Inr b \<and>
         average_saturation_of avg r g b = Inr (PyDataArray v) \<and>
         out = sRGB_arr \<lparr>coords_band = coords_band xarr, data = satEnh r g b v,
                          coord_avgS = Some v\<rparr> \<and>
         coords_band out = coords_band xarr \<and> coord_avgS out = Some v \<and>
         length (data out) = 3 \<and>
         (\<forall>k<3. length (data out ! k) = length (satEnh r g b v ! k) \<and>
            (\<forall>i<length (data out ! k).
               data out ! k ! i =
                 (if satEnh r g b v ! k ! i \<le> 0.0031308
                  then 12.92 * (satEnh r g b v ! k ! i)
                  else 1.055 * (satEnh r g b v ! k ! i) powr (1 / 2.4) - 0.055)))))"
proof (intro conjI impI)
  assume "enhanceImage xarr avg = Inr out"
  from enhanceImage_InrD [OF this] obtain r g b v where sel:
    "sAdj_sel xarr ''red'' = Inr r" "sAdj_sel xarr ''green'' = Inr g"
    "sAdj_sel xarr ''blue'' = Inr b"
    "average_saturation_of avg r g b = Inr (PyDataArray v)"
    and out: "out = sRGB_arr \<lparr>coords_band = coords_band xarr, data = satEnh r g b v,
                     coord_avgS = Some v\<rparr>" by blast
  have d: "data out = map (map sRGB) (satEnh r g b v)"
    and lab: "coords_band out = coords_band xarr" "coord_avgS out = Some v"
    by (simp_all add: out sRGB_arr_def)
  have three: "length (satEnh r g b v) = 3" by (simp add: satEnh_def)
  have pix: "length (data out ! k) = length (satEnh r g b v ! k) \<and>
      (\<forall>i<length (data out ! k).
         data out ! k ! i =
           (if satEnh r g b v ! k ! i \<le> 0.0031308
            then 12.92 * (satEnh r g b v ! k ! i)
            else 1.055 * (satEnh r g b v ! k ! i) powr (1 / 2.4) - 0.055))" if "k < 3" for k
  proof -
    have "data out ! k = map sRGB (satEnh r g b v ! k)"
      using that three by (simp add: d)
    then show ?thesis by (simp add: sRGB_def)
  qed
  show "\<exists>r g b v.
         sAdj_sel xarr ''red'' = Inr r \<and> sAdj_sel xarr ''green'' = Inr g \<and>
         sAdj_sel xarr ''blue'' = Inr b \<and>
         average_saturation_of avg r g b = Inr (PyDataArray v) \<and>
         out = sRGB_arr \<lparr>coords_band = coords_band xarr, data = satEnh r g b v,
                          coord_avgS = Some v\<rparr> \<and>
         coords_band out = coords_band xarr \<and> coord_avgS out = Some v \<and>
         length (data out) = 3 \<and>
         (\<forall>k<3. length (data out ! k) = length (satEnh r g b v ! k) \<and>
            (\<forall>i<length (data out ! k).
               data out ! k ! i =
                 (if satEnh r g b v ! k ! i \<le> 0.0031308
                  then 12.92 * (satEnh r g b v ! k ! i)
                  else 1.055 * (satEnh r g b v ! k ! i) powr (1 / 2.4) - 0.055)))"
    using sel out lab three pix d by (intro exI [of _ r] exI [of _ g] exI [of _ b] exI [of _ v]) simp
qed (simp_all add: sRGB_def)

text \<open>
  The black pixel with the scalar \<open>0.5\<close>: every linear value is \<open>0.5\<close>, on the power
  branch.
\<close>

theorem sRGB_formula_last_stage_witness:
  "(0::real) \<le> 0.0031308 \<and> sRGB 0 = 12.92 * 0 \<and>
   \<not> (1 / 2 :: real) \<le> 0.0031308 \<and> sRGB (1 / 2) = 1.055 * (1 / 2) powr (1 / 2.4) - 0.055 \<and>
   enhanceImage black_rgb (PyDataArray (1 / 2)) =
     Inr \<lparr>coords_band = [''red'', ''green'', ''blue''],
          data = [[sRGB (1 / 2)], [sRGB (1 / 2)], [sRGB (1 / 2)]], coord_avgS = Some (1 / 2)\<rparr> \<and>
   (\<exists>r g b v.
      sAdj_sel black_rgb ''red'' = Inr r \<and> sAdj_sel black_rgb ''green'' = Inr g \<and>
      sAdj_sel black_rgb ''blue'' = Inr b \<and>
      average_saturation_of (PyDataArray (1 / 2)) r g b = Inr (PyDataArray v) \<and>
      satEnh r g b v = [[1 / 2], [1 / 2], [1 / 2]] \<and>
      data \<lparr>coords_band = [''red'', ''green'', ''blue''],
            data = [[sRGB (1 / 2)], [sRGB (1 / 2)], [sRGB (1 / 2)]],
            coord_avgS = Some (1 / 2 :: real)\<rparr> ! 0 ! 0 =
        (if satEnh r g b v ! 0 ! 0 \<le> 0.0031308
         then 12.92 * (satEnh r g b v ! 0 ! 0)
         else 1.055 * (satEnh r g b v ! 0 ! 0) powr (1 / 2.4) - 0.055))"
proof -
  let ?out = "\<lparr>coords_band = [''red'', ''green'', ''blue''],
          data = [[sRGB (1 / 2)], [sRGB (1 / 2)], [sRGB (1 / 2)]], coord_avgS = Some (1 / 2)\<rparr>"
  have run: "enhanceImage black_rgb (PyDataArray (1 / 2)) = Inr ?out"
    by (rule black_rgb_half)
  from sRGB_formula_last_stage [of 0 black_rgb "PyDataArray (1 / 2)" ?out] run
  obtain r g b v where
    sel: "sAdj_sel black_rgb ''red'' = Inr r" "sAdj_sel black_rgb ''green'' = Inr g"
      "sAdj_sel black_rgb ''blue'' = Inr b"
    and avg: "average_saturation_of (PyDataArray (1 / 2)) r g b = Inr (PyDataArray v)"
    and pix: "\<forall>k<3. length (data ?out ! k) = length (satEnh r g b v ! k) \<and>
            (\<forall>i<length (data ?out ! k).
               data ?out ! k ! i =
                 (if satEnh r g b v ! k ! i \<le> 0.0031308
                  then 12.92 * (satEnh r g b v ! k ! i)
                  else 1.055 * (satEnh r g b v ! k ! i) powr (1 / 2.4) - 0.055))"
    by blast
  from sel black_rgb_tone have rgb: "r = [0]" "g = [0]" "b = [0]" by simp_all
  from avg have v: "v = 1 / 2" by (simp add: average_saturation_of_def)
  have lin: "satEnh r g b v = [[1 / 2], [1 / 2], [1 / 2]]"
    by (simp add: rgb v satEnh_def clip_def)
  have "(0::nat) < 3" "0 < length (data ?out ! 0)" by simp_all
  with pix have p00: "data ?out ! 0 ! 0 =
      (if satEnh r g b v ! 0 ! 0 \<le> 0.0031308
       then 12.92 * (satEnh r g b v ! 0 ! 0)
       else 1.055 * (satEnh r g b v ! 0 ! 0) powr (1 / 2.4) - 0.055)"
    by blast
  have s0: "sRGB 0 = 12.92 * 0"
    using sRGB_formula_last_stage [of 0 black_rgb "PyDataArray (1 / 2)" ?out] by simp
  have s1: "sRGB (1 / 2) = 1.055 * (1 / 2) powr (1 / 2.4) - 0.055"
    using sRGB_formula_last_stage [of "1 / 2" black_rgb "PyDataArray (1 / 2)" ?out] by simp
  have ex: "\<exists>r g b v.
      sAdj_sel black_rgb ''red'' = Inr r \<and> sAdj_sel black_rgb ''green'' = Inr g \<and>
      sAdj_sel black_rgb ''blue'' = Inr b \<and>
      average_saturation_of (PyDataArray (1 / 2)) r g b = Inr (PyDataArray v) \<and>
      satEnh r g b v = [[1 / 2], [1 / 2], [1 / 2]] \<and>
      data \<lparr>coords_band = [''red'', ''green'', ''blue''],
            data = [[sRGB (1 / 2)], [sRGB (1 / 2)], [sRGB (1 / 2)]],
            coord_avgS = Some (1 / 2 :: real)\<rparr> ! 0 ! 0 =
        (if satEnh r g b v ! 0 ! 0 \<le> 0.0031308
         then 12.92 * (satEnh r g b v ! 0 ! 0)
         else 1.055 * (satEnh r g b v ! 0 ! 0) powr (1 / 2.4) - 0.055)"
    using sel avg lin p00 by blast
  have "(0::real) \<le> 0.0031308" "\<not> (1 / 2 :: real) \<le> 0.0031308" by simp_all
  with s0 s1 run ex show ?thesis by blast
qed

text \<open>
  C9. When the \<^verbatim>\<open>band\<close> coordinate lacks one of the labels red, green and blue,
  \<^verbatim>\<open>enhanceImage\<close> returns no result: it raises \<^verbatim>\<open>KeyError\<close> for a missing label,
  whatever the second argument. When all three labels are there, the three selections
  succeed.
\<close>

theorem missing_band_error:
  assumes "length (data xarr) = length (coords_band xarr)"
  shows "(\<not> {''red'', ''green'', ''blue''} \<subseteq> set (coords_band xarr) \<longrightarrow>
           (\<exists>l. l \<in> {''red'', ''green'', ''blue''} \<and> l \<notin> set (coords_band xarr) \<and>
              enhanceImage xarr avg = Inl (KeyError l))) \<and>
         ({''red'', ''green'', ''blue''} \<subseteq> set (coords_band xarr) \<longrightarrow>
           (\<exists>r g b. sel xarr ''red'' = Inr r \<and> sel xarr ''green'' = Inr g \<and>
              sel xarr ''blue'' = Inr b))"
proof (intro conjI impI)
  assume miss: "\<not> {''red'', ''green'', ''blue''} \<subseteq> set (coords_band xarr)"
  show "\<exists>l. l \<in> {''red'', ''green'', ''blue''} \<and> l \<notin> set (coords_band xarr) \<and>
          enhanceImage xarr avg = Inl (KeyError l)"
  proof (cases "''red'' \<in> set (coords_band xarr)")
    case False
    then have "enhanceImage xarr avg = Inl (KeyError ''red'')"
      by (simp add: enhanceImage_def sAdj_sel_missing)
    with False show ?thesis by blast
  next
    case red: True
    from sAdj_sel_present [OF assms red] obtain r where r: "sAdj_sel xarr ''red'' = Inr r"
      by blast
    show ?thesis
    proof (cases "''green'' \<in> set (coords_band xarr)")
      case False
      then have "enhanceImage xarr avg = Inl (KeyError ''green'')"
        using r by (simp add: enhanceImage_def sAdj_sel_missing)
      with False show ?thesis by blast
    next
      case green: True
      from sAdj_sel_present [OF assms green] obtain g where
        g: "sAdj_sel xarr ''green'' = Inr g" by blast
      from miss red green have blue: "''blue'' \<notin> set (coords_band xarr)" by simp
      then have "enhanceImage xarr avg = Inl (KeyError ''blue'')"
        using r g by (simp add: enhanceImage_def sAdj_sel_missing)
      with blue show ?thesis by blast
    qed
  qed
next
  assume "{''red'', ''green'', ''blue''} \<subseteq> set (coords_band xarr)"
  then show "\<exists>r g b. sel xarr ''red'' = Inr r \<and> sel xarr ''green'' = Inr g \<and>
               sel xarr ''blue'' = Inr b"
    using sel_present [OF assms, of "''red''"] sel_present [OF assms, of "''green''"]
      sel_present [OF assms, of "''blue''"] by auto
qed

theorem missing_band_error_witness:
  "length (data \<lparr>coords_band = [''red'', ''green''], data = [[0], [0]], coord_avgS = None\<rparr>) =
     length (coords_band \<lparr>coords_band = [''red'', ''green''], data = [[0::real], [0]],
                           coord_avgS = None :: real option\<rparr>) \<and>
   \<not> {''red'', ''green'', ''blue''} \<subseteq> set [''red'', ''green''] \<and>
   enhanceImage \<lparr>coords_band = [''red'', ''green''], data = [[0], [0]], coord_avgS = None\<rparr>
     PyNone = Inl (KeyError ''blue'') \<and>
   length (data black_rgb) = length (coords_band black_rgb) \<and>
   {''red'', ''green'', ''blue''} \<subseteq> set (coords_band black_rgb) \<and>
   (\<exists>r g b. sel black_rgb ''red'' = Inr r \<and> sel black_rgb ''green'' = Inr g \<and>
      sel black_rgb ''blue'' = Inr b)"
  using missing_band_error
      [of "\<lparr>coords_band = [''red'', ''green''], data = [[0], [0]], coord_avgS = None\<rparr>" PyNone]
    missing_band_error [of black_rgb PyNone]
  by auto

text \<open>
  C10, as the code has it. For every three-band image and every scalar supplied as a
  zero-dimensional \<^verbatim>\<open>DataArray\<close>, \<^verbatim>\<open>enhanceImage\<close> completes, does not recompute the
  scalar, and uses the supplied value for the saturation stage and for the attached
  \<^verbatim>\<open>avgS\<close> field. A plain float is refused: line 80 raises \<^verbatim>\<open>AttributeError\<close>.
\<close>

theorem supplied_average_saturation:
  assumes "three_band xarr n"
  shows "\<exists>r g b. sAdj_sel xarr ''red'' = Inr r \<and> sAdj_sel xarr ''green'' = Inr g \<and>
           sAdj_sel xarr ''blue'' = Inr b \<and>
           average_saturation_of (PyDataArray v) r g b = Inr (PyDataArray v) \<and>
           enhanceImage xarr (PyDataArray v) =
             Inr \<lparr>coords_band = coords_band xarr, data = map (map sRGB) (satEnh r g b v),
                  coord_avgS = Some v\<rparr> \<and>
           enhanceImage xarr (PyFloat v) = Inl AttributeError"
proof -
  obtain r where r: "sAdj_sel xarr ''red'' = Inr r"
    using three_band_sel [OF assms, of "''red''"] by auto
  obtain g where g: "sAdj_sel xarr ''green'' = Inr g"
    using three_band_sel [OF assms, of "''green''"] by auto
  obtain b where b: "sAdj_sel xarr ''blue'' = Inr b"
    using three_band_sel [OF assms, of "''blue''"] by auto
  have three: "length (coords_band xarr) = 3"
    using assms by (simp add: three_band_def)
  have "average_saturation_of (PyDataArray v) r g b = Inr (PyDataArray v)"
    by (simp add: average_saturation_of_def)
  with r g b enhanceImage_supplied [OF r g b three, of v] enhanceImage_float [OF r g b three, of v]
  show ?thesis by blast
qed

theorem supplied_average_saturation_witness:
  "three_band black_rgb 1 \<and>
   (\<exists>r g b. sAdj_sel black_rgb ''red'' = Inr r \<and> sAdj_sel black_rgb ''green'' = Inr g \<and>
           sAdj_sel black_rgb ''blue'' = Inr b \<and>
           average_saturation_of (PyDataArray (1 / 2)) r g b = Inr (PyDataArray (1 / 2)) \<and>
           enhanceImage black_rgb (PyDataArray (1 / 2)) =
             Inr \<lparr>coords_band = coords_band black_rgb,
                  data = map (map sRGB) (satEnh r g b (1 / 2)), coord_avgS = Some (1 / 2)\<rparr> \<and>
           enhanceImage black_rgb (PyFloat (1 / 2)) = Inl AttributeError)"
  using supplied_average_saturation [of black_rgb 1 "1 / 2"] black_rgb_three_band by simp

text \<open>
  C10 as stated promises a result for a plain floating-point number. On the black
  pixel with \<open>0.5\<close> there is none.
\<close>

theorem plain_float_counterexample:
  "three_band black_rgb 1 \<and> enhanceImage black_rgb (PyFloat (1 / 2)) = Inl AttributeError"
  using enhanceImage_float [of black_rgb "[0]" "[0]" "[0]" "1 / 2"] black_rgb_tone
    black_rgb_three_band
  by simp

text \<open>
  C3 at the input with the bands in the order blue, green, red, blue at \<open>1\<close> and red and
  green at \<open>0\<close>. The bands are selected by label, and the stacked result holds processed
  red, green, blue in this order: \<open>[[0], [0], [p]]\<close> with \<open>p > 0\<close>. The labels of the
  result are those of the input, so the band labelled red is the processed blue band
  and the band labelled blue is the processed red band.
\<close>

theorem band_labels_follow_input_order:
  "\<exists>out p. enhanceImage blue_bgr PyNone = Inr out \<and> 0 < p \<and>
     coords_band out = [''blue'', ''green'', ''red''] \<and> data out = [[0], [0], [p]] \<and>
     sel out ''red'' = Inr [p] \<and> sel out ''blue'' = Inr [0] \<and>
     sel blue_bgr ''red'' = Inr [0] \<and> sel blue_bgr ''blue'' = Inr [1]"
proof -
  obtain v where v: "sAdj 1 = Some v" "0 < v" using sAdj_pos [of 1] by auto
  have r: "sAdj_sel blue_bgr ''red'' = Inr [0]"
    and g: "sAdj_sel blue_bgr ''green'' = Inr [0]"
    and b: "sAdj_sel blue_bgr ''blue'' = Inr [v]"
    by (simp_all add: sAdj_sel_def sel_def band_map_def sAdj_zero v)
  define m where "m = - (v / 15)"
  have m: "avgS [0] [0] [v] = Some m"
    by (simp add: avgS_def mean_def sat_def m_def)
  define q where "q = clip (m + v * sat)"
  have "m + v * sat = 17 / 15 * v" by (simp add: m_def sat_def)
  then have q: "0 < q" "q \<le> 1" using v(2) by (simp_all add: q_def clip_def)
  have c0: "clip (m + 0 * sat) = 0" using v(2) by (simp add: clip_def m_def)
  define out where "out = \<lparr>coords_band = [''blue'', ''green'', ''red''],
    data = [[0], [0], [sRGB q]], coord_avgS = Some m\<rparr>"
  have "enhanceImage blue_bgr PyNone = Inr out"
    using enhanceImage_computed [OF r g b _ m] c0
    by (simp add: satEnh_def sRGB_zero q_def out_def)
  moreover have "0 < sRGB q" using q by (rule sRGB_pos)
  moreover have "sel out ''red'' = Inr [sRGB q]" "sel out ''blue'' = Inr [0]"
    by (simp_all add: sel_def out_def)
  moreover have "sel blue_bgr ''red'' = Inr [0]" "sel blue_bgr ''blue'' = Inr [1]"
    by (simp_all add: sel_def)
  ultimately show ?thesis by (auto simp: out_def)
qed

section \<open>Further properties of the stages\<close>

text \<open>
  The clip of the saturation stage bounds the result whatever the range of the input:
  every array \<^verbatim>\<open>enhanceImage\<close> returns has all its pixel values in \<open>[0, 1]\<close>.
\<close>

theorem enhanceImage_range_any_input:
  assumes "enhanceImage xarr avg = Inr out"
  shows "list_all (list_all (\<lambda>y. 0 \<le> y \<and> y \<le> 1)) (data out)"
proof -
  from enhanceImage_InrD [OF assms] obtain r g b v where
    "out = sRGB_arr \<lparr>coords_band = coords_band xarr, data = satEnh r g b v,
                     coord_avgS = Some v\<rparr>" by blast
  then have "data out = map (map sRGB) (satEnh r g b v)"
    by (simp add: sRGB_arr_def)
  then show ?thesis by (simp only: satEnh_range)
qed

theorem enhanceImage_range_any_input_witness:
  "enhanceImage black_rgb PyNone =
     Inr \<lparr>coords_band = [''red'', ''green'', ''blue''], data = [[0], [0], [0]],
          coord_avgS = Some 0\<rparr> \<and>
   list_all (list_all (\<lambda>y. 0 \<le> y \<and> y \<le> 1)) [[0], [0], [0::real]]"
  using enhanceImage_range_any_input [OF black_rgb_enhanced] black_rgb_enhanced by simp

text \<open>
  The gamma stage is normalised: it maps \<open>0\<close> to \<open>0\<close> and \<open>1\<close> to \<open>1\<close>; the whole tone curve
  maps \<open>0\<close> to \<open>0\<close>.
\<close>

theorem tone_curve_normalised:
  "adjGamma 0 = Some 0 \<and> adjGamma 1 = Some 1 \<and> sAdj 0 = Some 0"
proof -
  have g0: "adjGamma 0 = Some 0"
    by (simp add: adjGamma_def gOff_def gOffPow_def)
  have "gOffRange \<noteq> 0" using gOffRange_pos by simp
  then have g1: "adjGamma 1 = Some 1"
    by (simp add: adjGamma_def gOff_def gOffRange_def)
  from g0 g1 sAdj_zero show ?thesis by simp
qed

text \<open>
  At the breakpoint \<open>c = 0.0031308\<close> the two branches of the encoder differ by a little
  less than \<open>2.9e-8\<close>: the linear branch, which the encoder takes there, is the larger.
\<close>

theorem sRGB_breakpoint_gap:
  "28 / 10 ^ 9 < sRGB 0.0031308 - (1.055 * 0.0031308 powr (1 / 2.4) - 0.055) \<and>
   sRGB 0.0031308 - (1.055 * 0.0031308 powr (1 / 2.4) - 0.055) \<le> 29 / 10 ^ 9"
proof -
  define p :: real where "p = 0.0031308 powr (5 / 12)"
  have lo: "95449907 / 1055000000 \<le> p"
    unfolding p_def by (rule root12_le) (simp_all add: field_simps)
  have hi: "p < 95449908 / 1055000000"
    unfolding p_def by (rule root12_less) (simp_all add: field_simps)
  have "sRGB 0.0031308 - (1.055 * 0.0031308 powr (1 / 2.4) - 0.055)
      = 40449936 / 10 ^ 9 - (1055 / 1000 * p - 55 / 1000)"
    by (simp add: sRGB_linear p_def)
  moreover have "28 / 10 ^ 9 < 40449936 / 10 ^ 9 - (1055 / 1000 * p - 55 / 1000)"
    using hi by simp
  moreover have "40449936 / 10 ^ 9 - (1055 / 1000 * p - 55 / 1000) \<le> 29 / 10 ^ 9"
    using lo by simp
  ultimately show ?thesis by simp
qed

end
